theory Spec2Isabelle
  imports Complex_Main "HOL-Library.Char_ord" "HOL-Library.List_Lexorder"
begin

section \<open>Python and SQLite values\<close>

text \<open>
  A Python \<open>float\<close>. Finite values are carried as rationals (rounding is not modelled,
  and \<open>-0.0\<close> is \<open>0\<close>); the three non-finite values are kept apart, because SQLite and
  Python's truth test treat them specially.
\<close>

datatype pyfloat = Finite rat | PosInf | NegInf | NaN

text \<open>What \<open>resp.json()\<close> returns: \<open>None\<close>, \<open>bool\<close>, \<open>int\<close>, \<open>float\<close>, \<open>str\<close>,
  \<open>list\<close> or \<open>dict\<close> (the items of the dict, looked up with \<open>map_of\<close>).\<close>

datatype json =
    JNull
  | JBool bool
  | JInt int
  | JFloat pyfloat
  | JStr string
  | JArr "json list"
  | JObj "(string \<times> json) list"

text \<open>
  Every \<open>raise\<close> of the program and every exception of a built-in it calls is a value.
  \<open>HTTPException\<close> carries \<open>status_code\<close> and \<open>detail\<close>; \<open>ProgrammingError\<close> is
  \<open>sqlite3\<close>'s refusal to bind a parameter; \<open>RequestException\<close> is a failure of
  \<open>requests.get\<close> itself.
\<close>

datatype error =
    HTTPException nat string
  | TypeError
  | ValueError
  | AttributeError
  | KeyError
  | IndexError
  | OverflowError
  | ProgrammingError
  | RequestException

definition ebind :: "error + 'a \<Rightarrow> ('a \<Rightarrow> error + 'b) \<Rightarrow> error + 'b" where
  "ebind m f = (case m of Inl e \<Rightarrow> Inl e | Inr x \<Rightarrow> f x)"

text \<open>
  Three conversions belong to the Python and SQLite libraries and not to the program:
  \<open>float(s)\<close> on a string (\<open>None\<close> where Python raises \<open>ValueError\<close>), the text SQLite
  stores for a REAL written to a TEXT column, and \<open>str(x)\<close> of a float. They are
  parameters of the model; every theorem holds for all of them.
\<close>

record pylib =
  float_of_str :: "string \<Rightarrow> pyfloat option"
  real_text :: "pyfloat \<Rightarrow> string"
  float_str :: "pyfloat \<Rightarrow> string"

subsection \<open>Built-ins on JSON values\<close>

text \<open>\<open>bool(x)\<close>, as \<open>not hourly\<close> and \<open>lat and lon\<close> use it.\<close>

fun float_truthy :: "pyfloat \<Rightarrow> bool" where
  "float_truthy (Finite r) = (r \<noteq> 0)"
| "float_truthy PosInf = True"
| "float_truthy NegInf = True"
| "float_truthy NaN = True"

fun truthy :: "json \<Rightarrow> bool" where
  "truthy JNull = False"
| "truthy (JBool b) = b"
| "truthy (JInt i) = (i \<noteq> 0)"
| "truthy (JFloat f) = float_truthy f"
| "truthy (JStr s) = (s \<noteq> [])"
| "truthy (JArr xs) = (xs \<noteq> [])"
| "truthy (JObj kvs) = (kvs \<noteq> [])"

text \<open>\<open>x.get(key, default)\<close>: only a dict has the method.\<close>

fun py_get :: "json \<Rightarrow> string \<Rightarrow> json \<Rightarrow> error + json" where
  "py_get (JObj kvs) k d = Inr (case map_of kvs k of None \<Rightarrow> d | Some v \<Rightarrow> v)"
| "py_get _ k d = Inl AttributeError"

text \<open>\<open>len(x)\<close>: lists, strings and dicts are sized, the other values raise.\<close>

fun py_len :: "json \<Rightarrow> error + nat" where
  "py_len (JArr xs) = Inr (length xs)"
| "py_len (JStr s) = Inr (length s)"
| "py_len (JObj kvs) = Inr (length (remdups (map fst kvs)))"
| "py_len _ = Inl TypeError"

text \<open>\<open>x[i]\<close> for an index \<open>i \<ge> 0\<close>. A dict whose keys are strings has no key \<open>i\<close>.\<close>

fun py_index :: "json \<Rightarrow> nat \<Rightarrow> error + json" where
  "py_index (JArr xs) i = (if i < length xs then Inr (xs ! i) else Inl IndexError)"
| "py_index (JStr s) i = (if i < length s then Inr (JStr [s ! i]) else Inl IndexError)"
| "py_index (JObj kvs) i = Inl KeyError"
| "py_index _ i = Inl TypeError"

text \<open>
  \<open>float(x)\<close>. An \<open>int\<close> converts when it rounds to a finite double, that is below
  \<open>2^1024 - 2^970\<close> in absolute value.
\<close>

fun py_float :: "pylib \<Rightarrow> json \<Rightarrow> error + pyfloat" where
  "py_float L JNull = Inl TypeError"
| "py_float L (JBool b) = Inr (Finite (if b then 1 else 0))"
| "py_float L (JInt i) =
     (if \<bar>i\<bar> < 2 ^ 1024 - 2 ^ 970 then Inr (Finite (of_int i)) else Inl OverflowError)"
| "py_float L (JFloat f) = Inr f"
| "py_float L (JStr s) = (case float_of_str L s of None \<Rightarrow> Inl ValueError | Some f \<Rightarrow> Inr f)"
| "py_float L (JArr xs) = Inl TypeError"
| "py_float L (JObj kvs) = Inl TypeError"

section \<open>Database setup\<close>

text \<open>
  \<open>init_db\<close> creates the table \<open>weather\<close>:
  \<^verbatim>\<open>timestamp TEXT NOT NULL, temperature REAL, humidity REAL, latitude REAL,
  longitude REAL, UNIQUE(timestamp, latitude, longitude)\<close>.
  A REAL column holds a double or NULL (\<open>None\<close>); SQLite has no NaN. The column \<open>id\<close>
  is never read or written by the program and is left out: the table is the list of its
  rows in the order they were inserted.
\<close>

record weather =
  timestamp :: string
  temperature :: "pyfloat option"
  humidity :: "pyfloat option"
  latitude :: "pyfloat option"
  longitude :: "pyfloat option"

type_synonym db = "weather list"

definition init_db :: db where
  "init_db = []"

text \<open>SQL's \<open>=\<close> on two column values: NULL equals nothing, not even NULL.\<close>

fun sql_eq :: "pyfloat option \<Rightarrow> pyfloat option \<Rightarrow> bool" where
  "sql_eq (Some a) (Some b) = (a = b)"
| "sql_eq _ _ = False"

text \<open>The UNIQUE index: a new row conflicts with a stored row that equals it on all
  three columns.\<close>

definition same_key :: "weather \<Rightarrow> weather \<Rightarrow> bool" where
  "same_key r s =
     (timestamp r = timestamp s \<and> sql_eq (latitude r) (latitude s)
      \<and> sql_eq (longitude r) (longitude s))"

definition conflicts :: "db \<Rightarrow> weather \<Rightarrow> bool" where
  "conflicts d r = list_ex (same_key r) d"

subsection \<open>Binding parameters\<close>

text \<open>\<open>sqlite3\<close> binds a Python float as a REAL, and SQLite turns NaN into NULL.\<close>

definition bind_real :: "pyfloat \<Rightarrow> pyfloat option" where
  "bind_real f = (if f = NaN then None else Some f)"

text \<open>Decimal text of an integer, as SQLite writes an INTEGER into a TEXT column.\<close>

fun nat_text :: "nat \<Rightarrow> string" where
  "nat_text n =
     (if n < 10 then [char_of (48 + n)] else nat_text (n div 10) @ [char_of (48 + n mod 10)])"

declare nat_text.simps [simp del]

definition int_text :: "int \<Rightarrow> string" where
  "int_text i = (if i < 0 then CHR ''-'' # nat_text (nat (- i)) else nat_text (nat i))"

text \<open>
  The first parameter of the INSERT is whatever \<open>times[i]\<close> was. \<open>sqlite3\<close> binds
  \<open>None\<close>, \<open>int\<close> (a \<open>bool\<close> is one), \<open>float\<close> and \<open>str\<close>, refuses an \<open>int\<close> outside 64
  bits and refuses lists and dicts; the TEXT affinity of the column then stores a number
  as its text. \<open>None\<close> is NULL.
\<close>

fun bind_text :: "pylib \<Rightarrow> json \<Rightarrow> error + string option" where
  "bind_text L JNull = Inr None"
| "bind_text L (JBool b) = Inr (Some (if b then ''1'' else ''0''))"
| "bind_text L (JInt i) =
     (if - (2 ^ 63) \<le> i \<and> i < 2 ^ 63 then Inr (Some (int_text i)) else Inl OverflowError)"
| "bind_text L (JFloat f) = Inr (if f = NaN then None else Some (real_text L f))"
| "bind_text L (JStr s) = Inr (Some s)"
| "bind_text L (JArr xs) = Inl ProgrammingError"
| "bind_text L (JObj kvs) = Inl ProgrammingError"

section \<open>insert\_weather\_rows\<close>

text \<open>A parameter tuple of \<open>executemany\<close>:
  \<open>(timestamp, temperature, humidity, latitude, longitude)\<close>.\<close>

type_synonym params = "json \<times> pyfloat \<times> pyfloat \<times> pyfloat \<times> pyfloat"

text \<open>
  One \<open>INSERT OR IGNORE\<close>: a row that violates NOT NULL on \<open>timestamp\<close> or the UNIQUE
  index is skipped, any other row is appended and counted by \<open>total_changes\<close>.
\<close>

definition insert_or_ignore ::
  "string option \<Rightarrow> pyfloat option \<Rightarrow> pyfloat option \<Rightarrow> pyfloat option \<Rightarrow> pyfloat option
    \<Rightarrow> db \<times> int \<Rightarrow> db \<times> int" where
  "insert_or_ignore ts te hu la lo st =
     (case ts of
        None \<Rightarrow> st
      | Some t \<Rightarrow>
          (let r = \<lparr>timestamp = t, temperature = te, humidity = hu, latitude = la,
                    longitude = lo\<rparr>
           in if conflicts (fst st) r then st else (fst st @ [r], snd st + 1)))"

text \<open>\<open>executemany\<close> runs the statement for each tuple in turn; a tuple that cannot be
  bound raises and ends the loop.\<close>

fun executemany :: "pylib \<Rightarrow> params list \<Rightarrow> db \<times> int \<Rightarrow> error + db \<times> int" where
  "executemany L [] st = Inr st"
| "executemany L ((t, te, hu, la, lo) # ps) st =
     ebind (bind_text L t) (\<lambda>ts.
       executemany L ps
         (insert_or_ignore ts (bind_real te) (bind_real hu) (bind_real la) (bind_real lo) st))"

text \<open>
  \<open>insert_weather_rows\<close> opens a connection, runs \<open>executemany\<close>, commits and returns
  \<open>total_changes\<close>. An exception leaves before \<open>commit\<close>, so the transaction is rolled
  back: on \<open>Inl\<close> the database is the one the call started with.
\<close>

definition insert_weather_rows :: "pylib \<Rightarrow> params list \<Rightarrow> db \<Rightarrow> error + db \<times> int" where
  "insert_weather_rows L rows d = executemany L rows (d, 0)"

section \<open>Dates and times\<close>

text \<open>
  A \<open>datetime\<close> in UTC is the number of microseconds since 0001-01-01T00:00:00, the
  proleptic Gregorian count that \<open>datetime\<close> itself works in. The clock is an input of
  every function that reads it. \<open>ord2ymd\<close> is the library's conversion of a day number
  (day 1 is 0001-01-01) to year, month and day.
\<close>

type_synonym datetime = int

definition timedelta_hours :: "int \<Rightarrow> int" where
  "timedelta_hours h = h * 3600 * 1000000"

definition replace_microsecond_0 :: "datetime \<Rightarrow> datetime" where
  "replace_microsecond_0 d = d - d mod 1000000"

definition days_before_month :: "int \<Rightarrow> int" where
  "days_before_month m =
     [0, 0, 31, 59, 90, 120, 151, 181, 212, 243, 273, 304, 334] ! nat m"

definition days_in_month :: "int \<Rightarrow> int" where
  "days_in_month m = [0, 31, 28, 31, 30, 31, 30, 31, 31, 30, 31, 30, 31] ! nat m"

definition ord2ymd :: "int \<Rightarrow> int \<times> int \<times> int" where
  "ord2ymd ordinal =
     (let n = ordinal - 1;
          n400 = n div 146097; na = n mod 146097;
          n100 = na div 36524; nb = na mod 36524;
          n4 = nb div 1461; nc = nb mod 1461;
          n1 = nc div 365; nd = nc mod 365;
          year = n400 * 400 + 1 + n100 * 100 + n4 * 4 + n1
      in if n1 = 4 \<or> n100 = 4 then (year - 1, 12, 31)
         else
           (let leapyear = (n1 = 3 \<and> (n4 \<noteq> 24 \<or> n100 = 3));
                month = (nd + 50) div 32;
                preceding = days_before_month month + (if month > 2 \<and> leapyear then 1 else 0)
            in if preceding > nd
               then (let m = month - 1;
                         p = preceding - (days_in_month m + (if m = 2 \<and> leapyear then 1 else 0))
                     in (year, m, nd - p + 1))
               else (year, month, nd - preceding + 1)))"

text \<open>\<open>zpad w n\<close>: the decimal digits of \<open>n \<ge> 0\<close>, padded with zeros to width \<open>w\<close>.\<close>

definition zpad :: "nat \<Rightarrow> int \<Rightarrow> string" where
  "zpad w n = (let s = nat_text (nat n) in replicate (w - length s) CHR ''0'' @ s)"

definition date_text :: "datetime \<Rightarrow> string" where
  "date_text d =
     (case ord2ymd (d div 86400000000 + 1) of
        (y, m, dd) \<Rightarrow> zpad 4 y @ ''-'' @ zpad 2 m @ ''-'' @ zpad 2 dd)"

definition hour :: "datetime \<Rightarrow> int" where
  "hour d = d mod 86400000000 div 3600000000"

definition minute :: "datetime \<Rightarrow> int" where
  "minute d = d mod 3600000000 div 60000000"

definition second :: "datetime \<Rightarrow> int" where
  "second d = d mod 60000000 div 1000000"

definition microsecond :: "datetime \<Rightarrow> int" where
  "microsecond d = d mod 1000000"

text \<open>\<open>isoformat()\<close> of an aware datetime whose zone is \<open>timezone.utc\<close>.\<close>

definition isoformat :: "datetime \<Rightarrow> string" where
  "isoformat d =
     date_text d @ ''T'' @ zpad 2 (hour d) @ '':'' @ zpad 2 (minute d) @ '':''
       @ zpad 2 (second d)
       @ (if microsecond d = 0 then [] else ''.'' @ zpad 6 (microsecond d))
       @ ''+00:00''"

text \<open>\<open>strftime('%Y-%m-%d %H:%M UTC')\<close>, for a year of four digits.\<close>

definition strftime :: "datetime \<Rightarrow> string" where
  "strftime d = date_text d @ '' '' @ zpad 2 (hour d) @ '':'' @ zpad 2 (minute d) @ '' UTC''"

section \<open>fetch\_last\_48h\<close>

text \<open>
  The SELECT compares the TEXT column \<open>timestamp\<close> with the bound string \<open>since_iso\<close>
  byte by byte (a proper prefix is smaller), which is the order of \<open>string\<close> here, and
  orders the result by the same column. Rows with equal timestamps come in an order the
  engine chooses; the model keeps them in insertion order. With both \<open>lat\<close> and \<open>lon\<close>
  given, the bound values are compared with SQL's \<open>=\<close>.
\<close>

definition fetch_last_48h ::
  "datetime \<Rightarrow> pyfloat option \<Rightarrow> pyfloat option \<Rightarrow> db \<Rightarrow> weather list" where
  "fetch_last_48h now_utc lat lon d =
     (let since = now_utc - timedelta_hours 48;
          since_iso = isoformat (replace_microsecond_0 since)
      in case (lat, lon) of
           (Some la, Some lo) \<Rightarrow>
             sort_key timestamp
               (filter (\<lambda>r. timestamp r \<ge> since_iso \<and> sql_eq (latitude r) (bind_real la)
                             \<and> sql_eq (longitude r) (bind_real lo)) d)
         | _ \<Rightarrow> sort_key timestamp (filter (\<lambda>r. timestamp r \<ge> since_iso) d))"

section \<open>Open-Meteo fetcher\<close>

text \<open>
  The provider is outside the program: \<open>requests.get\<close> is a function of the query
  parameters \<open>(latitude, longitude, past_days, timezone)\<close> that raises or returns a
  response; a response has a status and a body, \<open>None\<close> when the body is not JSON and
  \<open>resp.json()\<close> raises.
\<close>

record response =
  status_code :: nat
  body :: "json option"

type_synonym requests_get = "pyfloat \<Rightarrow> pyfloat \<Rightarrow> int \<Rightarrow> string \<Rightarrow> error + response"

definition fetch_open_meteo ::
  "requests_get \<Rightarrow> pyfloat \<Rightarrow> pyfloat \<Rightarrow> int \<Rightarrow> string \<Rightarrow> error + json" where
  "fetch_open_meteo get lat lon past_days timezone_str =
     ebind (get lat lon past_days timezone_str) (\<lambda>resp.
       if status_code resp \<noteq> 200
       then Inl (HTTPException 502 (''Open-Meteo API error: '' @ nat_text (status_code resp)))
       else (case body resp of None \<Rightarrow> Inl ValueError | Some data \<Rightarrow> Inr data))"

section \<open>Endpoints\<close>

subsection \<open>weather\_report\<close>

text \<open>The list comprehension: row \<open>i\<close> is
  \<open>(times[i], float(temps[i]), float(hums[i]), float(lat), float(lon))\<close>; the first
  element that cannot be read or converted raises.\<close>

fun build_rows ::
  "pylib \<Rightarrow> json \<Rightarrow> json \<Rightarrow> json \<Rightarrow> pyfloat \<Rightarrow> pyfloat \<Rightarrow> nat list \<Rightarrow> error + params list" where
  "build_rows L tms temps hums lat lon [] = Inr []"
| "build_rows L tms temps hums lat lon (i # rest_is) =
     ebind (py_index tms i) (\<lambda>t.
     ebind (py_index temps i) (\<lambda>x.
     ebind (py_float L x) (\<lambda>te.
     ebind (py_index hums i) (\<lambda>y.
     ebind (py_float L y) (\<lambda>hu.
     ebind (build_rows L tms temps hums lat lon rest_is) (\<lambda>rest.
       Inr ((t, te, hu, lat, lon) # rest)))))))"

record report =
  message :: string
  location :: "pyfloat \<times> pyfloat"
  requested_records :: int
  db_inserted_rows :: int

definition weather_report ::
  "pylib \<Rightarrow> requests_get \<Rightarrow> pyfloat \<Rightarrow> pyfloat \<Rightarrow> db \<Rightarrow> error + db \<times> report" where
  "weather_report L get lat lon d =
     ebind (fetch_open_meteo get lat lon 2 ''UTC'') (\<lambda>data.
     ebind (py_get data ''hourly'' JNull) (\<lambda>hourly.
       if \<not> truthy hourly
       then Inl (HTTPException 502 ''Open-Meteo response missing 'hourly' key.'')
       else
         ebind (py_get hourly ''time'' (JArr [])) (\<lambda>tms.
         ebind (py_get hourly ''temperature_2m'' (JArr [])) (\<lambda>temps.
         ebind (py_get hourly ''relative_humidity_2m'' (JArr [])) (\<lambda>hums.
         ebind (py_len tms) (\<lambda>a.
         ebind (py_len temps) (\<lambda>b.
         ebind (py_len hums) (\<lambda>c.
         ebind (build_rows L tms temps hums lat lon [0..<min a (min b c)]) (\<lambda>rows.
         ebind (insert_weather_rows L rows d) (\<lambda>(d', inserted).
           Inr (d', \<lparr>message = ''Weather data fetched and stored.'',
                     location = (lat, lon),
                     requested_records = int (length rows),
                     db_inserted_rows = inserted\<rparr>)))))))))))"

subsection \<open>export\_pdf\<close>

text \<open>
  The PDF is the list of flowables handed to \<open>doc.build\<close>. The chart is the two lines
  that are plotted, temperature and humidity against the timestamp column; parsing the
  timestamps and drawing belong to pandas and matplotlib.
\<close>

datatype style = Title | Normal

datatype chart = Chart "(string \<times> pyfloat option) list" "(string \<times> pyfloat option) list"

datatype flowable =
    Paragraph string style
  | Spacer nat nat
  | Image chart nat nat

text \<open>\<open>f"{x}"\<close> of an optional float.\<close>

definition format_opt :: "pylib \<Rightarrow> pyfloat option \<Rightarrow> string" where
  "format_opt L x = (case x of None \<Rightarrow> ''None'' | Some f \<Rightarrow> float_str L f)"

text \<open>\<open>bool(x)\<close> of an optional float: \<open>None\<close> and \<open>0.0\<close> are false.\<close>

definition opt_truthy :: "pyfloat option \<Rightarrow> bool" where
  "opt_truthy x = (case x of None \<Rightarrow> False | Some f \<Rightarrow> float_truthy f)"

definition make_chart :: "weather list \<Rightarrow> chart" where
  "make_chart rows =
     Chart (map (\<lambda>r. (timestamp r, temperature r)) rows)
           (map (\<lambda>r. (timestamp r, humidity r)) rows)"

text \<open>
  \<open>export_pdf\<close> reads the clock twice: \<open>now_utc\<close> inside \<open>fetch_last_48h\<close> and \<open>now\<close>
  (\<open>datetime.utcnow()\<close>) for the date range. The result is the story of the document.
\<close>

definition export_pdf ::
  "pylib \<Rightarrow> datetime \<Rightarrow> datetime \<Rightarrow> pyfloat option \<Rightarrow> pyfloat option \<Rightarrow> db \<Rightarrow> flowable list" where
  "export_pdf L now_utc now lat lon d =
     (let rows = fetch_last_48h now_utc lat lon d
      in if rows = []
         then [Paragraph ''Weather Report'' Title,
               Paragraph ''No data available for last 48 hours.'' Normal]
         else
           (let date_range = strftime (now - timedelta_hours 48) @ '' to '' @ strftime now;
                location =
                  (if opt_truthy lat \<and> opt_truthy lon
                   then ''lat='' @ format_opt L lat @ '', lon='' @ format_opt L lon
                   else ''All locations'')
            in [Paragraph ''Weather Report'' Title,
                Spacer 1 12,
                Paragraph (''<b>Location:</b> '' @ location) Normal,
                Paragraph (''<b>Date range:</b> '' @ date_range) Normal,
                Spacer 1 20,
                Image (make_chart rows) 500 250]))"

section \<open>Notions the properties are stated with\<close>

text \<open>The natural key of a stored row, as the values read back from the table.\<close>

definition natural_key :: "weather \<Rightarrow> string \<times> pyfloat option \<times> pyfloat option" where
  "natural_key r = (timestamp r, latitude r, longitude r)"

text \<open>A row whose latitude and longitude are both stored (not NULL).\<close>

definition keyed :: "weather \<Rightarrow> bool" where
  "keyed r = (latitude r \<noteq> None \<and> longitude r \<noteq> None)"

text \<open>A sequence of calls of \<open>insert_weather_rows\<close>; a call that raises leaves the
  table as it was.\<close>

fun run_batches :: "pylib \<Rightarrow> params list list \<Rightarrow> db \<Rightarrow> db" where
  "run_batches L [] d = d"
| "run_batches L (b # bs) d =
     (case insert_weather_rows L b d of
        Inl e \<Rightarrow> run_batches L bs d
      | Inr (d', inserted) \<Rightarrow> run_batches L bs d')"

fun is_image :: "flowable \<Rightarrow> bool" where
  "is_image (Image c w h) = True"
| "is_image _ = False"

section \<open>Example inputs\<close>

text \<open>A provider that answers every request with status 200 and the given JSON body.\<close>

definition answering :: "json \<Rightarrow> requests_get" where
  "answering data = (\<lambda>lat lon past_days tz. Inr \<lparr>status_code = 200, body = Some data\<rparr>)"

text \<open>A response with five timestamps, five temperatures and three humidities.\<close>

definition times_553 :: "json list" where
  "times_553 =
     [JStr ''2026-11-02T01:00'', JStr ''2026-11-02T02:00'', JStr ''2026-11-02T03:00'',
      JStr ''2026-11-02T04:00'', JStr ''2026-11-02T05:00'']"

definition temps_553 :: "json list" where
  "temps_553 =
     [JFloat (Finite 7.5), JFloat (Finite 7.1), JInt 7, JFloat (Finite 6.8),
      JFloat (Finite 6.4)]"

definition hums_553 :: "json list" where
  "hums_553 = [JInt 81, JInt 83, JFloat (Finite 84.5)]"

definition hourly_553 :: "(string \<times> json) list" where
  "hourly_553 =
     [(''time'', JArr times_553), (''temperature_2m'', JArr temps_553),
      (''relative_humidity_2m'', JArr hums_553)]"

definition data_553 :: json where
  "data_553 = JObj [(''hourly'', JObj hourly_553)]"

text \<open>The same response without the humidities.\<close>

definition data_no_humidity :: json where
  "data_no_humidity =
     JObj [(''hourly'', JObj [(''time'', JArr times_553), (''temperature_2m'', JArr temps_553)])]"

text \<open>A response of three hours in which the provider has no temperature for the second
  hour and sends \<open>null\<close>.\<close>

definition data_null_temperature :: json where
  "data_null_temperature =
     JObj [(''hourly'', JObj
       [(''time'', JArr (take 3 times_553)),
        (''temperature_2m'', JArr [JFloat (Finite 7.5), JNull, JInt 7]),
        (''relative_humidity_2m'', JArr hums_553)])]"

definition row_553 :: "string \<Rightarrow> rat \<Rightarrow> rat \<Rightarrow> weather" where
  "row_553 t te hu =
     \<lparr>timestamp = t, temperature = Some (Finite te), humidity = Some (Finite hu),
      latitude = Some (Finite 47.37), longitude = Some (Finite 8.55)\<rparr>"

definition report_553 :: report where
  "report_553 =
     \<lparr>message = ''Weather data fetched and stored.'',
      location = (Finite 47.37, Finite 8.55),
      requested_records = 3, db_inserted_rows = 3\<rparr>"

definition db_553 :: db where
  "db_553 = [row_553 ''2026-11-02T01:00'' 7.5 81, row_553 ''2026-11-02T02:00'' 7.1 83,
             row_553 ''2026-11-02T03:00'' 7 84.5]"

text \<open>
  The library conversions used to run the examples: Python's and SQLite's answers at the
  values that occur in them, and a fixed answer elsewhere.
\<close>

definition example_lib :: pylib where
  "example_lib =
     \<lparr>float_of_str = (\<lambda>s. if s = ''nan'' then Some NaN else None),
      real_text = (\<lambda>f. if f = Finite 47.37 then ''47.37'' else if f = Finite 8.55 then ''8.55''
                        else ''0.0''),
      float_str = (\<lambda>f. if f = Finite 47.37 then ''47.37'' else if f = Finite 8.55 then ''8.55''
                        else ''0.0'')\<rparr>"

text \<open>The clock at 2026-11-04T01:00:00.250000Z.\<close>

definition clock_0100 :: datetime where
  "clock_0100 = 63929350800250000"

text \<open>The three parameter tuples built from \<open>data_553\<close> for the point (47.37, 8.55).\<close>

definition batch_553 :: "params list" where
  "batch_553 =
     [(JStr ''2026-11-02T01:00'', Finite 7.5, Finite 81, Finite 47.37, Finite 8.55),
      (JStr ''2026-11-02T02:00'', Finite 7.1, Finite 83, Finite 47.37, Finite 8.55),
      (JStr ''2026-11-02T03:00'', Finite 7, Finite 84.5, Finite 47.37, Finite 8.55)]"

text \<open>A record whose latitude is NaN, and the row it is stored as.\<close>

definition nan_record :: params where
  "nan_record = (JStr ''2026-11-02T01:00'', Finite 7.5, Finite 81, NaN, Finite 8.55)"

definition nan_row :: weather where
  "nan_row =
     \<lparr>timestamp = ''2026-11-02T01:00'', temperature = Some (Finite 7.5),
      humidity = Some (Finite 81), latitude = None, longitude = Some (Finite 8.55)\<rparr>"

text \<open>What \<open>data_553\<close> is stored as when the requested latitude is NaN.\<close>

definition row_nan_553 :: "string \<Rightarrow> rat \<Rightarrow> rat \<Rightarrow> weather" where
  "row_nan_553 t te hu =
     \<lparr>timestamp = t, temperature = Some (Finite te), humidity = Some (Finite hu),
      latitude = None, longitude = Some (Finite 8.55)\<rparr>"

definition db_nan_553 :: db where
  "db_nan_553 =
     [row_nan_553 ''2026-11-02T01:00'' 7.5 81, row_nan_553 ''2026-11-02T02:00'' 7.1 83,
      row_nan_553 ''2026-11-02T03:00'' 7 84.5]"

definition report_nan_553 :: report where
  "report_nan_553 =
     \<lparr>message = ''Weather data fetched and stored.'',
      location = (NaN, Finite 8.55),
      requested_records = 3, db_inserted_rows = 3\<rparr>"

text \<open>A table with one observation on the equator, inside the window of \<open>clock_0100\<close>.\<close>

definition equator_db :: db where
  "equator_db =
     [\<lparr>timestamp = ''2026-11-03T12:00'', temperature = Some (Finite 26.3),
       humidity = Some (Finite 88), latitude = Some (Finite 0),
       longitude = Some (Finite 8.55)\<rparr>]"

text \<open>A table whose only observation is a month older than \<open>clock_0100\<close>.\<close>

definition old_db :: db where
  "old_db = [row_553 ''2026-10-01T00:00'' 11.2 70]"




section \<open>Lemmas about the building blocks\<close>

lemma ebind_Inr_iff: "ebind m f = Inr y \<longleftrightarrow> (\<exists>x. m = Inr x \<and> f x = Inr y)"
  by (cases m) (simp_all add: ebind_def)

lemma ebind_simps [simp]: "ebind (Inl e) f = Inl e" "ebind (Inr x) f = f x"
  by (simp_all add: ebind_def)

lemma insert_or_ignore_extends:
  "\<exists>new. insert_or_ignore ts te hu la lo (d, n) = (d @ new, n + int (length new))
         \<and> length new \<le> 1"
  by (cases ts) (auto simp: insert_or_ignore_def Let_def)

text \<open>A batch only appends rows, and \<open>total_changes\<close> grows by the number appended.\<close>

lemma executemany_extends:
  "executemany L ps (d, n) = Inr (d', n') \<Longrightarrow>
     \<exists>new. d' = d @ new \<and> n' = n + int (length new) \<and> length new \<le> length ps"
proof (induction ps arbitrary: d n)
  case Nil
  then show ?case by simp
next
  case (Cons p ps)
  obtain t te hu la lo where p: "p = (t, te, hu, la, lo)" by (cases p)
  from Cons.prems obtain ts where
    ts: "bind_text L t = Inr ts" and
    run: "executemany L ps
            (insert_or_ignore ts (bind_real te) (bind_real hu) (bind_real la) (bind_real lo)
               (d, n)) = Inr (d', n')"
    by (auto simp: p ebind_Inr_iff)
  obtain new1 where
    s: "insert_or_ignore ts (bind_real te) (bind_real hu) (bind_real la) (bind_real lo) (d, n)
          = (d @ new1, n + int (length new1))"
    and l1: "length new1 \<le> 1"
    using insert_or_ignore_extends by blast
  from Cons.IH [OF run [unfolded s]] obtain new2 where
    "d' = (d @ new1) @ new2" "n' = n + int (length new1) + int (length new2)"
    "length new2 \<le> length ps"
    by blast
  with l1 show ?case
    by (intro exI [of _ "new1 @ new2"]) simp
qed

text \<open>What a successful \<open>weather_report\<close> went through.\<close>

lemma weather_report_InrD:
  assumes "weather_report L get lat lon d = Inr (d', rep)"
  shows "\<exists>data hourly tms temps hums a b c rows.
           fetch_open_meteo get lat lon 2 ''UTC'' = Inr data
         \<and> py_get data ''hourly'' JNull = Inr hourly \<and> truthy hourly
         \<and> py_get hourly ''time'' (JArr []) = Inr tms
         \<and> py_get hourly ''temperature_2m'' (JArr []) = Inr temps
         \<and> py_get hourly ''relative_humidity_2m'' (JArr []) = Inr hums
         \<and> py_len tms = Inr a \<and> py_len temps = Inr b \<and> py_len hums = Inr c
         \<and> build_rows L tms temps hums lat lon [0..<min a (min b c)] = Inr rows
         \<and> insert_weather_rows L rows d = Inr (d', db_inserted_rows rep)
         \<and> requested_records rep = int (length rows)
         \<and> location rep = (lat, lon)"
  using assms
  by (auto simp: weather_report_def ebind_Inr_iff split: if_splits)

text \<open>The example response, ingested into an empty table: three rows are built and
  three are inserted.\<close>

lemma weather_report_553:
  "weather_report L (answering data_553) (Finite 47.37) (Finite 8.55) [] =
     Inr (db_553, report_553)"
  by (simp add: weather_report_def fetch_open_meteo_def answering_def data_553_def hourly_553_def times_553_def
      temps_553_def hums_553_def
      insert_weather_rows_def insert_or_ignore_def conflicts_def same_key_def bind_real_def
      db_553_def row_553_def report_553_def)

lemma conflicts_iff:
  "conflicts d r \<longleftrightarrow>
     (\<exists>s\<in>set d. timestamp r = timestamp s \<and> sql_eq (latitude r) (latitude s)
                  \<and> sql_eq (longitude r) (longitude s))"
  by (auto simp: conflicts_def same_key_def list_ex_iff)

lemma sql_eq_iff: "sql_eq a b \<longleftrightarrow> a \<noteq> None \<and> a = b"
  by (cases a; cases b) auto

lemma conflicts_append: "conflicts (d @ e) r \<longleftrightarrow> conflicts d r \<or> conflicts e r"
  by (auto simp: conflicts_iff)

lemma executemany_append:
  "executemany L (ps @ qs) st = ebind (executemany L ps st) (executemany L qs)"
proof (induction ps arbitrary: st)
  case Nil
  show ?case by simp
next
  case (Cons p ps)
  obtain t te hu la lo where p: "p = (t, te, hu, la, lo)" by (cases p)
  show ?case
    by (cases "bind_text L t") (simp_all add: p Cons.IH)
qed

lemma executemany_total:
  "\<forall>p\<in>set ps. \<exists>ts. bind_text L (fst p) = Inr ts \<Longrightarrow> \<exists>st'. executemany L ps st = Inr st'"
proof (induction ps arbitrary: st)
  case Nil
  show ?case by simp
next
  case (Cons p ps)
  obtain t te hu la lo where p: "p = (t, te, hu, la, lo)" by (cases p)
  from Cons.prems obtain ts where "bind_text L t = Inr ts" by (auto simp: p)
  moreover from Cons.prems have "\<forall>p\<in>set ps. \<exists>ts. bind_text L (fst p) = Inr ts" by simp
  ultimately show ?case using Cons.IH by (simp add: p)
qed

lemma insert_or_ignore_unique:
  assumes "distinct (map natural_key (filter keyed d))"
  shows "distinct (map natural_key (filter keyed (fst (insert_or_ignore ts te hu la lo (d, n)))))"
proof (cases ts)
  case None
  with assms show ?thesis by (simp add: insert_or_ignore_def)
next
  case (Some t)
  define r where "r = \<lparr>timestamp = t, temperature = te, humidity = hu, latitude = la, longitude = lo\<rparr>"
  show ?thesis
  proof (cases "conflicts d r")
    case True
    with assms Some show ?thesis by (simp add: insert_or_ignore_def r_def)
  next
    case False
    have "natural_key r \<notin> natural_key ` {s \<in> set d. keyed s}" if "keyed r"
    proof
      assume "natural_key r \<in> natural_key ` {s \<in> set d. keyed s}"
      then obtain s where "s \<in> set d" "natural_key s = natural_key r" by auto
      with that have "conflicts d r"
        by (auto simp: conflicts_iff natural_key_def keyed_def sql_eq_iff intro!: bexI [of _ s])
      with False show False by simp
    qed
    with assms Some False show ?thesis
      by (simp add: insert_or_ignore_def r_def [symmetric])
  qed
qed

lemma executemany_unique:
  "distinct (map natural_key (filter keyed d)) \<Longrightarrow> executemany L ps (d, n) = Inr (d', n')
    \<Longrightarrow> distinct (map natural_key (filter keyed d'))"
proof (induction ps arbitrary: d n)
  case Nil
  then show ?case by simp
next
  case (Cons p ps)
  obtain t te hu la lo where p: "p = (t, te, hu, la, lo)" by (cases p)
  from Cons.prems(2) obtain ts where
    run: "executemany L ps
            (insert_or_ignore ts (bind_real te) (bind_real hu) (bind_real la) (bind_real lo)
               (d, n)) = Inr (d', n')"
    by (auto simp: p ebind_Inr_iff)
  obtain d1 n1 where
    s: "insert_or_ignore ts (bind_real te) (bind_real hu) (bind_real la) (bind_real lo) (d, n)
          = (d1, n1)"
    by (cases "insert_or_ignore ts (bind_real te) (bind_real hu) (bind_real la) (bind_real lo) (d, n)")
  from insert_or_ignore_unique [OF Cons.prems(1), of ts "bind_real te" "bind_real hu"
      "bind_real la" "bind_real lo" n]
  have "distinct (map natural_key (filter keyed d1))" by (simp add: s)
  from Cons.IH [OF this run [unfolded s]] show ?case .
qed

lemma run_batches_unique:
  "distinct (map natural_key (filter keyed d))
    \<Longrightarrow> distinct (map natural_key (filter keyed (run_batches L bs d)))"
proof (induction bs arbitrary: d)
  case Nil
  then show ?case by simp
next
  case (Cons b bs)
  show ?case
  proof (cases "insert_weather_rows L b d")
    case (Inl e)
    with Cons show ?thesis by simp
  next
    case (Inr st)
    obtain d' n' where st: "st = (d', n')" by (cases st)
    from Inr have "executemany L b (d, 0) = Inr (d', n')"
      by (simp add: insert_weather_rows_def st)
    from executemany_unique [OF Cons.prems this] Cons.IH Inr st show ?thesis by simp
  qed
qed

text \<open>A record whose key is stored is skipped.\<close>

lemma insert_present:
  assumes "la \<noteq> NaN" "lo \<noteq> NaN" "r \<in> set d" "timestamp r = t" "latitude r = Some la"
    "longitude r = Some lo"
  shows "insert_weather_rows L [(JStr t, te, hu, la, lo)] d = Inr (d, 0)"
proof -
  have "conflicts d \<lparr>timestamp = t, temperature = bind_real te, humidity = bind_real hu,
          latitude = bind_real la, longitude = bind_real lo\<rparr>"
    using assms by (auto simp: conflicts_iff bind_real_def)
  then show ?thesis
    by (simp add: insert_weather_rows_def insert_or_ignore_def)
qed

text \<open>Every tuple built by the list comprehension carries the requested point.\<close>

lemma build_rows_tagged:
  "build_rows L tms temps hums lat lon ixs = Inr rows \<Longrightarrow> p \<in> set rows
    \<Longrightarrow> \<exists>t te hu. p = (t, te, hu, lat, lon)"
proof (induction ixs arbitrary: rows)
  case Nil
  then show ?case by simp
next
  case (Cons i ixs)
  from Cons.prems(1) obtain t te hu rest where
    "build_rows L tms temps hums lat lon ixs = Inr rest" "rows = (t, te, hu, lat, lon) # rest"
    by (auto simp: ebind_Inr_iff)
  with Cons.IH Cons.prems(2) show ?case by auto
qed

text \<open>After a batch, the key of each of its records with a timestamp and with latitude
  and longitude other than NaN is in the table.\<close>

lemma executemany_covers:
  assumes "executemany L ps (d, n) = Inr (d', n')"
    and "(t, te, hu, la, lo) \<in> set ps" and "la \<noteq> NaN" and "lo \<noteq> NaN"
    and "bind_text L t = Inr (Some ts)"
  shows "conflicts d' \<lparr>timestamp = ts, temperature = x, humidity = y,
           latitude = bind_real la, longitude = bind_real lo\<rparr>"
proof -
  from assms(2) obtain qs rs where ps: "ps = qs @ (t, te, hu, la, lo) # rs"
    by (auto simp: in_set_conv_decomp)
  from assms(1) obtain st1 where
    q: "executemany L qs (d, n) = Inr st1" and
    r: "executemany L ((t, te, hu, la, lo) # rs) st1 = Inr (d', n')"
    by (auto simp: ps executemany_append ebind_Inr_iff)
  obtain d1 n1 where st1: "st1 = (d1, n1)" by (cases st1)
  define row where "row = \<lparr>timestamp = ts, temperature = bind_real te, humidity = bind_real hu,
          latitude = bind_real la, longitude = bind_real lo\<rparr>"
  obtain d2 n2 where
    s: "insert_or_ignore (Some ts) (bind_real te) (bind_real hu) (bind_real la) (bind_real lo)
          (d1, n1) = (d2, n2)"
    by (cases "insert_or_ignore (Some ts) (bind_real te) (bind_real hu) (bind_real la)
          (bind_real lo) (d1, n1)")
  have c2: "conflicts d2 row"
  proof (cases "conflicts d1 row")
    case True
    with s show ?thesis by (simp add: insert_or_ignore_def row_def)
  next
    case False
    with s have "d2 = d1 @ [row]" by (simp add: insert_or_ignore_def row_def)
    with assms(3,4) show ?thesis
      by (simp add: conflicts_iff row_def bind_real_def)
  qed
  from r have "executemany L rs (d2, n2) = Inr (d', n')"
    by (simp add: st1 assms(5) s)
  from executemany_extends [OF this] obtain new where "d' = d2 @ new" by blast
  with c2 have "conflicts d' row" by (simp add: conflicts_append)
  then show ?thesis by (simp add: conflicts_iff row_def)
qed

text \<open>A batch all of whose records are skipped leaves the table and the count alone.\<close>

lemma executemany_noop:
  assumes "\<And>t te hu la lo. (t, te, hu, la, lo) \<in> set ps \<Longrightarrow>
             bind_text L t = Inr None \<or>
             (\<exists>ts. bind_text L t = Inr (Some ts) \<and>
               conflicts d \<lparr>timestamp = ts, temperature = bind_real te, humidity = bind_real hu,
                            latitude = bind_real la, longitude = bind_real lo\<rparr>)"
  shows "executemany L ps (d, n) = Inr (d, n)"
  using assms
proof (induction ps)
  case Nil
  show ?case by simp
next
  case (Cons p ps)
  obtain t te hu la lo where p: "p = (t, te, hu, la, lo)" by (cases p)
  from Cons.prems [of t te hu la lo]
  have "bind_text L t = Inr None \<or>
             (\<exists>ts. bind_text L t = Inr (Some ts) \<and>
               conflicts d \<lparr>timestamp = ts, temperature = bind_real te, humidity = bind_real hu,
                            latitude = bind_real la, longitude = bind_real lo\<rparr>)"
    by (simp add: p)
  moreover have "executemany L ps (d, n) = Inr (d, n)"
    by (rule Cons.IH) (use Cons.prems in auto)
  ultimately show ?case
    by (auto simp: p insert_or_ignore_def)
qed

lemma since_iso_0100:
  "isoformat (replace_microsecond_0 (clock_0100 - timedelta_hours 48)) =
     ''2026-11-02T01:00:00+00:00''"
  by code_simp

lemma strftime_0100: "strftime clock_0100 = ''2026-11-04 01:00 UTC''"
  by code_simp

lemma strftime_0100_minus_48h:
  "strftime (clock_0100 - timedelta_hours 48) = ''2026-11-02 01:00 UTC''"
  by code_simp

text \<open>What the SELECT returns: the rows at or after \<open>since_iso\<close> in the order of
  strings, sorted by timestamp; with a location, only the rows that equal it.\<close>

lemma fetch_last_48h_set:
  "set (fetch_last_48h now_utc None None d) =
     {r \<in> set d. isoformat (replace_microsecond_0 (now_utc - timedelta_hours 48)) \<le> timestamp r}"
  by (auto simp: fetch_last_48h_def Let_def)

lemma fetch_last_48h_sorted: "sorted (map timestamp (fetch_last_48h now_utc lat lon d))"
  by (cases lat; cases lon) (simp_all add: fetch_last_48h_def Let_def)

lemma fetch_last_48h_order_free:
  "set d = set d' \<Longrightarrow>
     set (fetch_last_48h now_utc None None d) = set (fetch_last_48h now_utc None None d')"
  by (simp add: fetch_last_48h_set)

lemma fetch_553:
  "fetch_last_48h clock_0100 None None db_553 =
     [row_553 ''2026-11-02T02:00'' 7.1 83, row_553 ''2026-11-02T03:00'' 7 84.5]"
  by (simp add: fetch_last_48h_def since_iso_0100 db_553_def row_553_def)

lemma fetch_old: "fetch_last_48h clock_0100 None None old_db = []"
  by (simp add: fetch_last_48h_def since_iso_0100 old_db_def row_553_def)

lemma fetch_equator:
  "fetch_last_48h clock_0100 (Some (Finite 0)) (Some (Finite 8.55)) equator_db = equator_db"
  by (simp add: fetch_last_48h_def since_iso_0100 equator_db_def bind_real_def)

text \<open>The location line of a report with data, as the code computes it.\<close>

lemma location_line:
  assumes "fetch_last_48h now_utc lat lon d \<noteq> []"
  shows "export_pdf L now_utc now lat lon d ! 2 =
           Paragraph (''<b>Location:</b> '' @
             (if opt_truthy lat \<and> opt_truthy lon
              then ''lat='' @ format_opt L lat @ '', lon='' @ format_opt L lon
              else ''All locations'')) Normal"
  using assms by (simp add: export_pdf_def Let_def)

text \<open>The list comprehension over three lists whose elements convert.\<close>

lemma build_rows_zip:
  assumes "\<forall>i\<in>set ixs. i < length ts \<and> i < length xs \<and> i < length ys
             \<and> py_float L (xs ! i) = Inr (tf i) \<and> py_float L (ys ! i) = Inr (hf i)"
  shows "build_rows L (JArr ts) (JArr xs) (JArr ys) lat lon ixs =
           Inr (map (\<lambda>i. (ts ! i, tf i, hf i, lat, lon)) ixs)"
  using assms by (induction ixs) simp_all

lemma fetch_answering: "fetch_open_meteo (answering data) lat lon past_days tz = Inr data"
  by (simp add: fetch_open_meteo_def answering_def)

text \<open>A \<open>null\<close> among the temperatures: \<open>float(None)\<close> raises inside the list
  comprehension, before anything is written.\<close>

lemma weather_report_null_temperature:
  "weather_report L (answering data_null_temperature) lat lon d = Inl TypeError"
  by (simp add: weather_report_def fetch_answering data_null_temperature_def times_553_def
      hums_553_def upt_rec numeral_3_eq_3)

text \<open>A response without humidities: \<open>hourly.get("relative_humidity_2m", [])\<close> is the
  empty list, the minimum length is 0, and the call succeeds with nothing to insert.\<close>

lemma weather_report_no_humidity:
  "weather_report L (answering data_no_humidity) lat lon d =
     Inr (d, \<lparr>message = ''Weather data fetched and stored.'', location = (lat, lon),
               requested_records = 0, db_inserted_rows = 0\<rparr>)"
  by (simp add: weather_report_def fetch_answering data_no_humidity_def times_553_def
      temps_553_def insert_weather_rows_def)


section \<open>Properties\<close>

text \<open>
  C10. Whenever \<open>weather_report\<close> succeeds, \<open>db_inserted_rows\<close> is at most
  \<open>requested_records\<close>, and neither count is negative: \<open>total_changes\<close> counts only rows
  of this batch that were really inserted.
\<close>

theorem inserted_at_most_requested:
  assumes "weather_report L get lat lon d = Inr (d', rep)"
  shows "0 \<le> db_inserted_rows rep \<and> db_inserted_rows rep \<le> requested_records rep
         \<and> 0 \<le> requested_records rep"
proof -
  from weather_report_InrD [OF assms] obtain rows where
    ins: "insert_weather_rows L rows d = Inr (d', db_inserted_rows rep)" and
    req: "requested_records rep = int (length rows)"
    by blast
  from ins have "executemany L rows (d, 0) = Inr (d', db_inserted_rows rep)"
    by (simp add: insert_weather_rows_def)
  from executemany_extends [OF this] obtain new :: "weather list" where
    "db_inserted_rows rep = 0 + int (length new)" "length new \<le> length rows"
    by blast
  with req show ?thesis by simp
qed

theorem inserted_at_most_requested_witness:
  "\<forall>L. weather_report L (answering data_553) (Finite 47.37) (Finite 8.55) [] =
          Inr (db_553, report_553)
     \<and> 0 \<le> db_inserted_rows report_553
     \<and> db_inserted_rows report_553 \<le> requested_records report_553
     \<and> 0 \<le> requested_records report_553"
  using inserted_at_most_requested [OF weather_report_553] weather_report_553 by simp

lemma run_nan_twice:
  "run_batches L [[nan_record], [nan_record]] init_db = [nan_row, nan_row]"
  by (simp add: insert_weather_rows_def insert_or_ignore_def conflicts_def same_key_def
      bind_real_def nan_record_def nan_row_def init_db_def)

lemma insert_batch_553: "insert_weather_rows L batch_553 [] = Inr (db_553, 3)"
  by (simp add: insert_weather_rows_def insert_or_ignore_def conflicts_def same_key_def
      bind_real_def batch_553_def db_553_def row_553_def)

lemma insert_batch_553_again: "insert_weather_rows L batch_553 db_553 = Inr (db_553, 0)"
  by (simp add: insert_weather_rows_def insert_or_ignore_def conflicts_def same_key_def
      bind_real_def batch_553_def db_553_def row_553_def)

lemma run_553_twice: "run_batches L [batch_553, batch_553] init_db = db_553"
  by (simp add: insert_batch_553 insert_batch_553_again init_db_def)

text \<open>
  C1, as stated: after any sequence of calls of \<open>insert_weather_rows\<close> no two rows of the
  table have the same \<open>(timestamp, latitude, longitude)\<close>. It fails for a record whose
  latitude is NaN: SQLite stores NULL, the UNIQUE index never finds a NULL equal to
  anything, and inserting the record twice leaves two rows with the same three values.
\<close>

theorem unique_keys_counterexample:
  "run_batches example_lib [[nan_record], [nan_record]] init_db = [nan_row, nan_row]
   \<and> \<not> distinct (map natural_key (run_batches example_lib [[nan_record], [nan_record]] init_db))"
  unfolding run_nan_twice by (simp add: natural_key_def)

text \<open>
  C1, amended: after any sequence of calls, no two rows whose latitude and longitude are
  both stored (not NULL) have the same \<open>(timestamp, latitude, longitude)\<close>; a call only
  appends, so every row already in the table stays where and as it was; and inserting a
  record whose key (with latitude and longitude other than NaN) is already stored
  changes nothing and counts no insertion.
\<close>

theorem unique_keys:
  "distinct (map natural_key (filter keyed (run_batches L bs init_db)))
   \<and> (insert_weather_rows L rows d = Inr (d', n) \<longrightarrow> (\<exists>new. d' = d @ new))
   \<and> (la \<noteq> NaN \<and> lo \<noteq> NaN \<and> r \<in> set e \<and> timestamp r = t \<and> latitude r = Some la
        \<and> longitude r = Some lo
      \<longrightarrow> insert_weather_rows L [(JStr t, te, hu, la, lo)] e = Inr (e, 0))"
proof (intro conjI impI)
  show "distinct (map natural_key (filter keyed (run_batches L bs init_db)))"
    by (rule run_batches_unique) (simp add: init_db_def)
next
  assume "insert_weather_rows L rows d = Inr (d', n)"
  then have "executemany L rows (d, 0) = Inr (d', n)"
    by (simp add: insert_weather_rows_def)
  from executemany_extends [OF this] show "\<exists>new. d' = d @ new" by blast
next
  assume "la \<noteq> NaN \<and> lo \<noteq> NaN \<and> r \<in> set e \<and> timestamp r = t \<and> latitude r = Some la
        \<and> longitude r = Some lo"
  then show "insert_weather_rows L [(JStr t, te, hu, la, lo)] e = Inr (e, 0)"
    by (intro insert_present [of la lo r]) simp_all
qed

theorem unique_keys_witness:
  "run_batches example_lib [batch_553, batch_553] init_db = db_553
   \<and> distinct (map natural_key (filter keyed (run_batches example_lib [batch_553, batch_553] init_db)))
   \<and> insert_weather_rows example_lib batch_553 [] = Inr (db_553, 3)
   \<and> (\<exists>new. db_553 = [] @ new)
   \<and> insert_weather_rows example_lib
        [(JStr ''2026-11-02T01:00'', Finite 9, Finite 70, Finite 47.37, Finite 8.55)] db_553
       = Inr (db_553, 0)"
  using unique_keys [of example_lib "[batch_553, batch_553]" batch_553 "[]" db_553 3
      "Finite 47.37" "Finite 8.55" "row_553 ''2026-11-02T01:00'' 7.5 81" db_553
      "''2026-11-02T01:00''" "Finite 9" "Finite 70"]
  unfolding run_553_twice
  by (simp add: insert_batch_553) (simp add: db_553_def row_553_def)

lemma weather_report_nan_553:
  "weather_report L (answering data_553) NaN (Finite 8.55) [] = Inr (db_nan_553, report_nan_553)"
  by (simp add: weather_report_def fetch_open_meteo_def answering_def data_553_def hourly_553_def times_553_def
      temps_553_def hums_553_def
      insert_weather_rows_def insert_or_ignore_def conflicts_def same_key_def bind_real_def
      db_nan_553_def row_nan_553_def report_nan_553_def)

lemma weather_report_nan_553_again:
  "weather_report L (answering data_553) NaN (Finite 8.55) db_nan_553 =
     Inr (db_nan_553 @ db_nan_553, report_nan_553)"
  by (simp add: weather_report_def fetch_open_meteo_def answering_def data_553_def hourly_553_def times_553_def
      temps_553_def hums_553_def
      insert_weather_rows_def insert_or_ignore_def conflicts_def same_key_def bind_real_def
      db_nan_553_def row_nan_553_def report_nan_553_def Let_def)

text \<open>
  C2, as stated: for every \<open>(lat, lon)\<close> and a fixed answer of the provider, a second
  \<open>weather_report\<close> right after the first reports \<open>db_inserted_rows = 0\<close>. It fails when
  the latitude is NaN: the rows are stored with a NULL latitude, the UNIQUE index never
  matches them, and the second call inserts all three rows again.
\<close>

theorem ingest_idempotent_counterexample:
  "weather_report example_lib (answering data_553) NaN (Finite 8.55) []
     = Inr (db_nan_553, report_nan_553)
   \<and> weather_report example_lib (answering data_553) NaN (Finite 8.55) db_nan_553
     = Inr (db_nan_553 @ db_nan_553, report_nan_553)
   \<and> db_inserted_rows report_nan_553 = 3"
  using weather_report_nan_553 [of example_lib] weather_report_nan_553_again [of example_lib]
  by (simp add: report_nan_553_def)

text \<open>
  C2, amended: for \<open>lat\<close> and \<open>lon\<close> other than NaN and a fixed answer of the provider,
  if \<open>weather_report\<close> succeeds, then calling it again on the table it left succeeds too,
  leaves the table unchanged, and returns the same report but for
  \<open>db_inserted_rows = 0\<close>; in particular \<open>requested_records\<close> is the same.
\<close>

theorem ingest_idempotent:
  assumes "lat \<noteq> NaN" and "lon \<noteq> NaN"
    and first: "weather_report L get lat lon d = Inr (d1, rep1)"
  shows "weather_report L get lat lon d1 = Inr (d1, rep1\<lparr>db_inserted_rows := 0\<rparr>)"
proof -
  from weather_report_InrD [OF first] obtain data hourly tms temps hums a b c rows where
    f: "fetch_open_meteo get lat lon 2 ''UTC'' = Inr data"
    and h: "py_get data ''hourly'' JNull = Inr hourly" "truthy hourly"
    and g: "py_get hourly ''time'' (JArr []) = Inr tms"
      "py_get hourly ''temperature_2m'' (JArr []) = Inr temps"
      "py_get hourly ''relative_humidity_2m'' (JArr []) = Inr hums"
    and l: "py_len tms = Inr a" "py_len temps = Inr b" "py_len hums = Inr c"
    and br: "build_rows L tms temps hums lat lon [0..<min a (min b c)] = Inr rows"
    and ins: "insert_weather_rows L rows d = Inr (d1, db_inserted_rows rep1)"
    and req: "requested_records rep1 = int (length rows)" "location rep1 = (lat, lon)"
    by blast
  from ins have run: "executemany L rows (d, 0) = Inr (d1, db_inserted_rows rep1)"
    by (simp add: insert_weather_rows_def)
  have "executemany L rows (d1, 0) = Inr (d1, 0)"
  proof (rule executemany_noop)
    fix t te hu la lo
    assume mem: "(t, te, hu, la, lo) \<in> set rows"
    from build_rows_tagged [OF br mem] have la: "la = lat" "lo = lon" by auto
    from mem obtain qs rs where "rows = qs @ (t, te, hu, la, lo) # rs"
      by (auto simp: in_set_conv_decomp)
    with run obtain ts where ts: "bind_text L t = Inr ts"
      by (auto simp: executemany_append ebind_Inr_iff)
    show "bind_text L t = Inr None \<or>
             (\<exists>ts. bind_text L t = Inr (Some ts) \<and>
               conflicts d1 \<lparr>timestamp = ts, temperature = bind_real te, humidity = bind_real hu,
                            latitude = bind_real la, longitude = bind_real lo\<rparr>)"
    proof (cases ts)
      case None
      with ts show ?thesis by simp
    next
      case (Some s)
      from executemany_covers [OF run mem _ _ ts [unfolded Some]] assms(1,2) la ts Some
      show ?thesis by simp
    qed
  qed
  then have ins2: "insert_weather_rows L rows d1 = Inr (d1, 0)"
    by (simp add: insert_weather_rows_def)
  have rep: "rep1 = \<lparr>message = ''Weather data fetched and stored.'', location = (lat, lon),
      requested_records = int (length rows), db_inserted_rows = db_inserted_rows rep1\<rparr>"
    using first f h g l br ins
    by (auto simp: weather_report_def)
  have "rep1\<lparr>db_inserted_rows := 0\<rparr> =
      \<lparr>message = ''Weather data fetched and stored.'', location = (lat, lon),
       requested_records = int (length rows), db_inserted_rows = 0\<rparr>"
    by (subst rep) simp
  then show ?thesis
    by (simp add: weather_report_def f h g l br ins2)
qed

theorem ingest_idempotent_witness:
  "Finite 47.37 \<noteq> NaN \<and> Finite 8.55 \<noteq> NaN
   \<and> weather_report example_lib (answering data_553) (Finite 47.37) (Finite 8.55) []
       = Inr (db_553, report_553)
   \<and> weather_report example_lib (answering data_553) (Finite 47.37) (Finite 8.55) db_553
       = Inr (db_553, report_553\<lparr>db_inserted_rows := 0\<rparr>)"
  using ingest_idempotent [OF _ _ weather_report_553, of example_lib] weather_report_553
  by simp

text \<open>
  C3. The window query without a location should return exactly the stored observations
  whose timestamp is at or after \<open>now_utc\<close> minus 48 hours (cut to whole seconds), in
  ascending order. The SELECT compares texts: at 2026-11-04T01:00:00.25Z the cutoff is
  written \<open>2026-11-02T01:00:00+00:00\<close>, the observation of that very instant is stored
  as \<open>2026-11-02T01:00\<close>, a proper prefix and so the smaller text, and it is left out.
\<close>

theorem window_boundary_excluded:
  "isoformat (replace_microsecond_0 (clock_0100 - timedelta_hours 48)) =
     ''2026-11-02T01:00:00+00:00''
   \<and> fetch_last_48h clock_0100 None None [row_553 ''2026-11-02T01:00'' 7.5 81] = []"
  by (simp add: fetch_last_48h_def since_iso_0100 row_553_def)

text \<open>
  C7. When the selected window has no observation, the document is a title and the
  notice that no data is available, and nothing else: there is no chart. The function
  returns this document; an empty window is not an error.
\<close>

theorem empty_window_report:
  assumes "fetch_last_48h now_utc lat lon d = []"
  shows "export_pdf L now_utc now lat lon d =
           [Paragraph ''Weather Report'' Title,
            Paragraph ''No data available for last 48 hours.'' Normal]
         \<and> \<not> list_ex is_image (export_pdf L now_utc now lat lon d)"
  using assms by (simp add: export_pdf_def)

theorem empty_window_report_witness:
  "fetch_last_48h clock_0100 None None old_db = []
   \<and> export_pdf example_lib clock_0100 clock_0100 None None old_db =
        [Paragraph ''Weather Report'' Title,
         Paragraph ''No data available for last 48 hours.'' Normal]
   \<and> \<not> list_ex is_image (export_pdf example_lib clock_0100 clock_0100 None None old_db)"
  using empty_window_report [OF fetch_old, of example_lib clock_0100] fetch_old by simp

text \<open>
  C8. For a window with data, the date-range line is made of the clock alone: from
  \<open>now\<close> minus 48 hours to \<open>now\<close>, whatever rows the query returned and whatever their
  earliest and latest timestamps are.
\<close>

theorem date_range_line:
  assumes "fetch_last_48h now_utc lat lon d \<noteq> []"
  shows "export_pdf L now_utc now lat lon d ! 3 =
           Paragraph (''<b>Date range:</b> '' @ strftime (now - timedelta_hours 48) @ '' to ''
                        @ strftime now) Normal"
  using assms by (simp add: export_pdf_def Let_def)

theorem date_range_line_witness:
  "fetch_last_48h clock_0100 None None db_553 \<noteq> []
   \<and> map timestamp (fetch_last_48h clock_0100 None None db_553) =
       [''2026-11-02T02:00'', ''2026-11-02T03:00'']
   \<and> export_pdf example_lib clock_0100 clock_0100 None None db_553 ! 3 =
       Paragraph ''<b>Date range:</b> 2026-11-02 01:00 UTC to 2026-11-04 01:00 UTC'' Normal"
proof -
  have ne: "fetch_last_48h clock_0100 None None db_553 \<noteq> []"
    by (simp add: fetch_553)
  from date_range_line [OF ne, of example_lib clock_0100] ne show ?thesis
    by (simp add: fetch_553 strftime_0100 strftime_0100_minus_48h row_553_def)
qed

text \<open>
  C9. The location line should show the coordinate pair whenever both \<open>lat\<close> and \<open>lon\<close>
  were given. For the point (0.0, 8.55) the query is restricted to that point and
  returns its observation, but the line reads \<open>All locations\<close>: \<open>lat and lon\<close> is false
  for the float \<open>0.0\<close>.
\<close>

theorem location_line_zero_latitude:
  "fetch_last_48h clock_0100 (Some (Finite 0)) (Some (Finite 8.55)) equator_db = equator_db
   \<and> export_pdf example_lib clock_0100 clock_0100 (Some (Finite 0)) (Some (Finite 8.55))
        equator_db ! 2
      = Paragraph ''<b>Location:</b> All locations'' Normal"
proof -
  have "fetch_last_48h clock_0100 (Some (Finite 0)) (Some (Finite 8.55)) equator_db \<noteq> []"
    unfolding fetch_equator by (simp add: equator_db_def)
  from location_line [OF this, of example_lib clock_0100] fetch_equator show ?thesis
    by (simp add: opt_truthy_def)
qed

text \<open>
  C6, as stated: for every response whose three hourly sequences have lengths \<open>a\<close>,
  \<open>b\<close>, \<open>c\<close>, \<open>weather_report\<close> builds exactly \<open>min a (min b c)\<close> records. It fails for
  three sequences of length three with a \<open>null\<close> temperature: the call raises
  \<open>TypeError\<close> and builds no record.
\<close>

theorem truncation_policy_counterexample:
  "weather_report example_lib (answering data_null_temperature) (Finite 47.37) (Finite 8.55) []
     = Inl TypeError"
  by (rule weather_report_null_temperature)

text \<open>
  C6, amended: when the three hourly sequences are lists of lengths \<open>a\<close>, \<open>b\<close>, \<open>c\<close>,
  and each of the first \<open>n = min a (min b c)\<close> temperatures and humidities converts with
  \<open>float\<close> and each of the first \<open>n\<close> timestamps can be bound, then \<open>weather_report\<close>
  succeeds, hands exactly the \<open>n\<close> records
  \<open>(time[i], float(temp[i]), float(hum[i]), lat, lon)\<close>, \<open>i < n\<close>, to
  \<open>insert_weather_rows\<close>, and reports \<open>requested_records = n\<close>. Lengths 5, 5, 3 give
  three records.
\<close>

theorem truncation_policy:
  assumes fetch: "fetch_open_meteo get lat lon 2 ''UTC'' = Inr data"
    and hourly: "py_get data ''hourly'' JNull = Inr (JObj h)"
    and seqs: "map_of h ''time'' = Some (JArr ts)" "map_of h ''temperature_2m'' = Some (JArr xs)"
      "map_of h ''relative_humidity_2m'' = Some (JArr ys)"
    and n: "n = min (length ts) (min (length xs) (length ys))"
    and conv: "\<forall>i<n. py_float L (xs ! i) = Inr (tf i) \<and> py_float L (ys ! i) = Inr (hf i)
                 \<and> (\<exists>s. bind_text L (ts ! i) = Inr s)"
  shows "\<exists>d' inserted.
           insert_weather_rows L (map (\<lambda>i. (ts ! i, tf i, hf i, lat, lon)) [0..<n]) d
             = Inr (d', inserted)
         \<and> weather_report L get lat lon d =
             Inr (d', \<lparr>message = ''Weather data fetched and stored.'', location = (lat, lon),
                       requested_records = int n, db_inserted_rows = inserted\<rparr>)"
proof -
  let ?rows = "map (\<lambda>i. (ts ! i, tf i, hf i, lat, lon)) [0..<n]"
  from seqs(1) have "h \<noteq> []" by auto
  have rows: "build_rows L (JArr ts) (JArr xs) (JArr ys) lat lon [0..<n] = Inr ?rows"
    by (rule build_rows_zip) (use n conv in auto)
  have "\<forall>p\<in>set ?rows. \<exists>s. bind_text L (fst p) = Inr s"
    using conv by auto
  from executemany_total [OF this, of "(d, 0)"] obtain d' inserted where
    ins: "insert_weather_rows L ?rows d = Inr (d', inserted)"
    by (auto simp: insert_weather_rows_def)
  have "weather_report L get lat lon d =
             Inr (d', \<lparr>message = ''Weather data fetched and stored.'', location = (lat, lon),
                       requested_records = int n, db_inserted_rows = inserted\<rparr>)"
    using \<open>h \<noteq> []\<close> by (simp add: weather_report_def fetch hourly seqs n [symmetric] rows ins)
  with ins show ?thesis by blast
qed

theorem truncation_policy_witness:
  "length times_553 = 5 \<and> length temps_553 = 5 \<and> length hums_553 = 3
   \<and> insert_weather_rows example_lib batch_553 [] = Inr (db_553, 3)
   \<and> weather_report example_lib (answering data_553) (Finite 47.37) (Finite 8.55) [] =
       Inr (db_553, \<lparr>message = ''Weather data fetched and stored.'',
                      location = (Finite 47.37, Finite 8.55),
                      requested_records = 3, db_inserted_rows = 3\<rparr>)"
proof -
  define tf where "tf = (\<lambda>i::nat. [Finite 7.5, Finite 7.1, Finite 7] ! i)"
  define hf where "hf = (\<lambda>i::nat. [Finite 81, Finite 83, Finite 84.5] ! i)"
  have n: "(3::nat) = min (length times_553) (min (length temps_553) (length hums_553))"
    by (simp add: times_553_def temps_553_def hums_553_def)
  have conv: "\<forall>i<3. py_float example_lib (temps_553 ! i) = Inr (tf i)
                 \<and> py_float example_lib (hums_553 ! i) = Inr (hf i)
                 \<and> (\<exists>s. bind_text example_lib (times_553 ! i) = Inr s)"
    by (simp add: less_Suc_eq numeral_3_eq_3 all_conj_distrib times_553_def temps_553_def
        hums_553_def tf_def hf_def)
  have rows: "map (\<lambda>i. (times_553 ! i, tf i, hf i, Finite 47.37, Finite 8.55)) [0..<3] = batch_553"
    by (simp add: upt_rec numeral_3_eq_3 times_553_def tf_def hf_def batch_553_def)
  note inst = truncation_policy [of "answering data_553" "Finite 47.37" "Finite 8.55" data_553
      hourly_553 times_553 temps_553 hums_553 3 example_lib tf hf "[]",
      OF fetch_answering _ _ _ _ n conv, unfolded rows]
  from inst have "\<exists>d' inserted.
           insert_weather_rows example_lib batch_553 [] = Inr (d', inserted)
         \<and> weather_report example_lib (answering data_553) (Finite 47.37) (Finite 8.55) [] =
             Inr (d', \<lparr>message = ''Weather data fetched and stored.'',
                       location = (Finite 47.37, Finite 8.55),
                       requested_records = int 3, db_inserted_rows = inserted\<rparr>)"
    by (simp add: data_553_def hourly_553_def)
  then show ?thesis
    by (simp add: insert_batch_553) (simp add: times_553_def temps_553_def hums_553_def)
qed

text \<open>
  C4, as stated: whenever one of the three hourly sequences is missing from the
  response, \<open>weather_report\<close> fails. It does not: without the humidities the call
  succeeds, with \<open>requested_records = 0\<close>.
\<close>

theorem missing_sequence_counterexample:
  "weather_report example_lib (answering data_no_humidity) (Finite 47.37) (Finite 8.55) db_553 =
     Inr (db_553, \<lparr>message = ''Weather data fetched and stored.'',
                    location = (Finite 47.37, Finite 8.55),
                    requested_records = 0, db_inserted_rows = 0\<rparr>)"
  by (rule weather_report_no_humidity)

text \<open>
  C4, amended: for a response that is a JSON object, \<open>weather_report\<close> fails with the
  502 error \<open>Open-Meteo response missing 'hourly' key.\<close> when the object has no
  \<open>hourly\<close> entry or an empty (false) one. When \<open>hourly\<close> is a non-empty object from
  which one of the three sequences is missing, the missing one is read as the empty list:
  provided the sequences that are there have a length, the call succeeds with
  \<open>requested_records = 0\<close> and \<open>db_inserted_rows = 0\<close> and leaves the table as it was.
\<close>

theorem malformed_response:
  assumes fetch: "fetch_open_meteo get lat lon 2 ''UTC'' = Inr (JObj kvs)"
  shows "((map_of kvs ''hourly'' = None \<or> (\<exists>h. map_of kvs ''hourly'' = Some h \<and> \<not> truthy h))
           \<longrightarrow> weather_report L get lat lon d =
                 Inl (HTTPException 502 ''Open-Meteo response missing 'hourly' key.''))
       \<and> (map_of kvs ''hourly'' = Some (JObj h) \<and> h \<noteq> []
           \<and> (map_of h ''time'' = None \<or> map_of h ''temperature_2m'' = None
                \<or> map_of h ''relative_humidity_2m'' = None)
           \<and> (\<forall>k\<in>{''time'', ''temperature_2m'', ''relative_humidity_2m''}.
                 \<forall>v. map_of h k = Some v \<longrightarrow> (\<exists>n. py_len v = Inr n))
           \<longrightarrow> weather_report L get lat lon d =
                 Inr (d, \<lparr>message = ''Weather data fetched and stored.'', location = (lat, lon),
                           requested_records = 0, db_inserted_rows = 0\<rparr>))"
proof (intro conjI impI)
  assume "map_of kvs ''hourly'' = None \<or> (\<exists>h. map_of kvs ''hourly'' = Some h \<and> \<not> truthy h)"
  then show "weather_report L get lat lon d =
                 Inl (HTTPException 502 ''Open-Meteo response missing 'hourly' key.'')"
    by (auto simp: weather_report_def fetch)
next
  assume a: "map_of kvs ''hourly'' = Some (JObj h) \<and> h \<noteq> []
           \<and> (map_of h ''time'' = None \<or> map_of h ''temperature_2m'' = None
                \<or> map_of h ''relative_humidity_2m'' = None)
           \<and> (\<forall>k\<in>{''time'', ''temperature_2m'', ''relative_humidity_2m''}.
                 \<forall>v. map_of h k = Some v \<longrightarrow> (\<exists>n. py_len v = Inr n))"
  define tms where "tms = (case map_of h ''time'' of None \<Rightarrow> JArr [] | Some v \<Rightarrow> v)"
  define temps where "temps = (case map_of h ''temperature_2m'' of None \<Rightarrow> JArr [] | Some v \<Rightarrow> v)"
  define hums where
    "hums = (case map_of h ''relative_humidity_2m'' of None \<Rightarrow> JArr [] | Some v \<Rightarrow> v)"
  have "\<exists>n. py_len tms = Inr n"
    by (cases "map_of h ''time''") (use a in \<open>auto simp: tms_def\<close>)
  moreover have "\<exists>n. py_len temps = Inr n"
    by (cases "map_of h ''temperature_2m''") (use a in \<open>auto simp: temps_def\<close>)
  moreover have "\<exists>n. py_len hums = Inr n"
    by (cases "map_of h ''relative_humidity_2m''") (use a in \<open>auto simp: hums_def\<close>)
  ultimately obtain na nb nc where
    len: "py_len tms = Inr na" "py_len temps = Inr nb" "py_len hums = Inr nc"
    by blast
  from a have "py_len tms = Inr 0 \<or> py_len temps = Inr 0 \<or> py_len hums = Inr 0"
    by (auto simp: tms_def temps_def hums_def)
  with len have "na = 0 \<or> nb = 0 \<or> nc = 0" by auto
  then have m: "min na (min nb nc) = 0" by auto
  from a show "weather_report L get lat lon d =
                 Inr (d, \<lparr>message = ''Weather data fetched and stored.'', location = (lat, lon),
                           requested_records = 0, db_inserted_rows = 0\<rparr>)"
    by (simp add: weather_report_def fetch tms_def [symmetric] temps_def [symmetric]
        hums_def [symmetric] len m insert_weather_rows_def)
qed

theorem malformed_response_witness:
  "fetch_open_meteo (answering (JObj [(''latitude'', JFloat (Finite 47.37))])) (Finite 47.37)
       (Finite 8.55) 2 ''UTC'' = Inr (JObj [(''latitude'', JFloat (Finite 47.37))])
   \<and> weather_report example_lib (answering (JObj [(''latitude'', JFloat (Finite 47.37))]))
        (Finite 47.37) (Finite 8.55) db_553 =
       Inl (HTTPException 502 ''Open-Meteo response missing 'hourly' key.'')
   \<and> weather_report example_lib (answering data_no_humidity) (Finite 47.37) (Finite 8.55) db_553 =
       Inr (db_553, \<lparr>message = ''Weather data fetched and stored.'',
                      location = (Finite 47.37, Finite 8.55),
                      requested_records = 0, db_inserted_rows = 0\<rparr>)"
proof -
  have fa: "fetch_open_meteo (answering (JObj [(''latitude'', JFloat (Finite 47.37))]))
      (Finite 47.37) (Finite 8.55) 2 ''UTC'' = Inr (JObj [(''latitude'', JFloat (Finite 47.37))])"
    by (rule fetch_answering)
  have fb: "fetch_open_meteo (answering data_no_humidity) (Finite 47.37) (Finite 8.55) 2 ''UTC''
      = Inr (JObj [(''hourly'',
               JObj [(''time'', JArr times_553), (''temperature_2m'', JArr temps_553)])])"
    unfolding fetch_answering by (simp add: data_no_humidity_def)
  note a = malformed_response [OF fa, where L = example_lib and d = db_553]
  note b = malformed_response [OF fb, where L = example_lib and d = db_553
      and h = "[(''time'', JArr times_553), (''temperature_2m'', JArr temps_553)]"]
  from a have 1: "weather_report example_lib (answering (JObj [(''latitude'', JFloat (Finite 47.37))]))
        (Finite 47.37) (Finite 8.55) db_553 =
       Inl (HTTPException 502 ''Open-Meteo response missing 'hourly' key.'')"
    by simp
  from b have 2: "weather_report example_lib (answering data_no_humidity) (Finite 47.37)
       (Finite 8.55) db_553 =
       Inr (db_553, \<lparr>message = ''Weather data fetched and stored.'',
                      location = (Finite 47.37, Finite 8.55),
                      requested_records = 0, db_inserted_rows = 0\<rparr>)"
    by (simp add: times_553_def temps_553_def)
  from 1 2 fa show ?thesis by simp
qed




end
